theory Spec2Isabelle
  imports Main "HOL-Library.Multiset"
begin

section \<open>The conversation store: chatbot_backend/shared/db_schema.sql\<close>

text \<open>
  The schema declares two tables. A table is modelled as the list of its rows in
  insertion order. An \<^verbatim>\<open>INSERT\<close> is checked against what the schema declares for
  the table and nothing else: the column types (\<^verbatim>\<open>VARCHAR(n)\<close>, \<^verbatim>\<open>TEXT\<close>,
  \<^verbatim>\<open>INTEGER\<close>), \<^verbatim>\<open>NOT NULL\<close>, the \<^verbatim>\<open>CHECK\<close> on \<^verbatim>\<open>speaker\<close>, and
  \<^verbatim>\<open>UNIQUE\<close> on \<^verbatim>\<open>conversation_summaries.workflow_id\<close>. The two
  \<^verbatim>\<open>CREATE INDEX\<close> statements declare plain indexes (not \<^verbatim>\<open>UNIQUE\<close>), so they
  constrain nothing.

  A \<open>string\<close> is a text, one \<open>char\<close> per character, so that \<open>length\<close> counts
  characters as \<^verbatim>\<open>VARCHAR(n)\<close> does.

  The column \<^verbatim>\<open>id SERIAL PRIMARY KEY\<close> of either table is numbered by the database
  and selected by no query of the web UI; the model does not carry it, and a row is
  identified by its position in the table. The column \<^verbatim>\<open>user_id\<close> is read by every
  query of the web UI and declared by the interfaces \<^verbatim>\<open>ConversationMessage\<close> and
  \<^verbatim>\<open>ConversationSummary\<close> of \<^verbatim>\<open>web-ui/src/types/index.ts\<close>; the statement adding
  it to the tables is not part of the schema file, so the model carries it as an
  unconstrained number.
\<close>

datatype storage_error =
    NotNullViolation
  | InvalidByteSequence
  | StringTooLong
  | CheckViolation
  | IntegerOutOfRange
  | UniqueViolation

text \<open>
  Storing a value in a \<^verbatim>\<open>VARCHAR(n)\<close> column: a value of more than \<open>n\<close>
  characters is an error, unless the characters in excess are all spaces, in which case
  the value is cut to \<open>n\<close> characters.
\<close>

definition varchar :: "nat \<Rightarrow> string \<Rightarrow> string option" where
  "varchar n s =
     (if length s \<le> n then Some s
      else if \<forall>c \<in> set (drop n s). c = CHR '' '' then Some (take n s)
      else None)"

text \<open>A stored row of \<^verbatim>\<open>public.conversations\<close>.\<close>

record conversation_row =
  workflow_id :: string
  speaker :: string
  message :: string
  message_order :: int
  created_at :: nat
  user_id :: nat

text \<open>
  The values an \<^verbatim>\<open>INSERT\<close> supplies; \<open>None\<close> is SQL \<^verbatim>\<open>NULL\<close>. The columns
  \<^verbatim>\<open>id\<close> and \<^verbatim>\<open>created_at\<close> (\<^verbatim>\<open>DEFAULT CURRENT_TIMESTAMP\<close>) are left to
  their defaults.
\<close>

record conversation_values =
  new_workflow_id :: "string option"
  new_speaker :: "string option"
  new_message :: "string option"
  new_message_order :: "int option"
  new_user_id :: nat

text \<open>
  What each column of \<^verbatim>\<open>public.conversations\<close> makes of the supplied value: the
  value to store, or the violation. No text of the database can hold the character
  U+0000. The \<^verbatim>\<open>CHECK\<close> compares the value as stored, and a \<^verbatim>\<open>VARCHAR\<close>
  comparison does not ignore trailing spaces.
\<close>

definition workflow_id_value :: "string option \<Rightarrow> storage_error + string" where
  "workflow_id_value x =
     (case x of
        None \<Rightarrow> Inl NotNullViolation
      | Some w \<Rightarrow>
          if CHR 0x00 \<in> set w then Inl InvalidByteSequence
          else (case varchar 255 w of
                  None \<Rightarrow> Inl StringTooLong
                | Some w' \<Rightarrow> Inr w'))"

definition speaker_value :: "string option \<Rightarrow> storage_error + string" where
  "speaker_value x =
     (case x of
        None \<Rightarrow> Inl NotNullViolation
      | Some s \<Rightarrow>
          if CHR 0x00 \<in> set s then Inl InvalidByteSequence
          else (case varchar 50 s of
                  None \<Rightarrow> Inl StringTooLong
                | Some s' \<Rightarrow>
                    if s' = ''user'' \<or> s' = ''response'' then Inr s' else Inl CheckViolation))"

definition message_value :: "string option \<Rightarrow> storage_error + string" where
  "message_value x =
     (case x of
        None \<Rightarrow> Inl NotNullViolation
      | Some m \<Rightarrow> if CHR 0x00 \<in> set m then Inl InvalidByteSequence else Inr m)"

definition message_order_value :: "int option \<Rightarrow> storage_error + int" where
  "message_order_value x =
     (case x of
        None \<Rightarrow> Inl NotNullViolation
      | Some n \<Rightarrow>
          if n < - 2147483648 \<or> 2147483647 < n then Inl IntegerOutOfRange else Inr n)"

definition violation :: "storage_error + 'a \<Rightarrow> storage_error list" where
  "violation x = (case x of Inl e \<Rightarrow> [e] | Inr y \<Rightarrow> [])"

text \<open>
  The violations of an \<^verbatim>\<open>INSERT\<close>, in column order. The database reports one
  violation of a rejected statement; which one it meets first depends on how the values
  are sent, so the model returns all of them and no property below depends on the
  choice.
\<close>

definition conversation_violations :: "conversation_values \<Rightarrow> storage_error list" where
  "conversation_violations v =
     violation (workflow_id_value (new_workflow_id v)) @
     violation (speaker_value (new_speaker v)) @
     violation (message_value (new_message v)) @
     violation (message_order_value (new_message_order v))"

text \<open>The row an \<^verbatim>\<open>INSERT\<close> executed at time \<open>now\<close> stores, or its violations.\<close>

definition conversation_row_of ::
  "nat \<Rightarrow> conversation_values \<Rightarrow> storage_error list + conversation_row" where
  "conversation_row_of now v =
     (case workflow_id_value (new_workflow_id v) of
        Inl e \<Rightarrow> Inl (conversation_violations v)
      | Inr w \<Rightarrow>
          (case speaker_value (new_speaker v) of
             Inl e \<Rightarrow> Inl (conversation_violations v)
           | Inr s \<Rightarrow>
               (case message_value (new_message v) of
                  Inl e \<Rightarrow> Inl (conversation_violations v)
                | Inr m \<Rightarrow>
                    (case message_order_value (new_message_order v) of
                       Inl e \<Rightarrow> Inl (conversation_violations v)
                     | Inr n \<Rightarrow>
                         Inr \<lparr>workflow_id = w, speaker = s, message = m, message_order = n,
                              created_at = now, user_id = new_user_id v\<rparr>))))"

text \<open>
  \<^verbatim>\<open>INSERT INTO public.conversations\<close>: the row is appended when the statement has
  no violation; otherwise the table is left as it was and the violations are returned.
\<close>

definition insert_conversation ::
  "nat \<Rightarrow> conversation_row list \<Rightarrow> conversation_values \<Rightarrow>
   storage_error list + conversation_row list" where
  "insert_conversation now tbl v =
     (case conversation_row_of now v of
        Inl es \<Rightarrow> Inl es
      | Inr r \<Rightarrow> Inr (tbl @ [r]))"

text \<open>
  A history of the table: the \<^verbatim>\<open>INSERT\<close> statements that reached the database, in
  the order the database executed them (any interleaving of any writers of any number
  of conversations), each paired with the time of its execution. A rejected statement
  leaves the table unchanged.
\<close>

fun run_inserts ::
  "conversation_row list \<Rightarrow> (nat \<times> conversation_values) list \<Rightarrow> conversation_row list" where
  "run_inserts tbl [] = tbl"
| "run_inserts tbl ((now, v) # stmts) =
     (case insert_conversation now tbl v of
        Inl es \<Rightarrow> run_inserts tbl stmts
      | Inr tbl' \<Rightarrow> run_inserts tbl' stmts)"

text \<open>The sequence numbers a conversation has in the table, in insertion order.\<close>

definition persisted_orders :: "string \<Rightarrow> conversation_row list \<Rightarrow> int list" where
  "persisted_orders w tbl = map message_order (filter (\<lambda>r. workflow_id r = w) tbl)"

text \<open>
  The values of a turn of conversation \<open>w\<close> of user \<open>u\<close>: speaker \<open>s\<close>, text
  \<open>m\<close>, sequence number \<open>n\<close>, none of them \<^verbatim>\<open>NULL\<close>.
\<close>

definition turn_values ::
  "string \<Rightarrow> nat \<Rightarrow> string \<Rightarrow> string \<Rightarrow> int \<Rightarrow> conversation_values" where
  "turn_values w u s m n =
     \<lparr>new_workflow_id = Some w, new_speaker = Some s, new_message = Some m,
      new_message_order = Some n, new_user_id = u\<rparr>"

subsection \<open>The writer of turns\<close>








subsection \<open>The summaries table\<close>

text \<open>A stored row of \<^verbatim>\<open>public.conversation_summaries\<close>; \<^verbatim>\<open>summary TEXT\<close> may be \<^verbatim>\<open>NULL\<close>.\<close>

record summary_row =
  cs_workflow_id :: string
  cs_summary :: "string option"
  cs_created_at :: nat
  cs_updated_at :: nat
  cs_user_id :: nat

record summary_values =
  new_cs_workflow_id :: "string option"
  new_cs_summary :: "string option"
  new_cs_user_id :: nat

definition summary_value :: "string option \<Rightarrow> storage_error + string option" where
  "summary_value x =
     (case x of
        None \<Rightarrow> Inr None
      | Some t \<Rightarrow> if CHR 0x00 \<in> set t then Inl InvalidByteSequence else Inr (Some t))"

text \<open>
  \<^verbatim>\<open>INSERT INTO public.conversation_summaries\<close>: \<^verbatim>\<open>workflow_id\<close> is
  \<^verbatim>\<open>VARCHAR(255) UNIQUE NOT NULL\<close>, so a row whose \<^verbatim>\<open>workflow_id\<close>, as stored, is
  already in the table is rejected.
\<close>

definition insert_summary ::
  "nat \<Rightarrow> summary_row list \<Rightarrow> summary_values \<Rightarrow> storage_error list + summary_row list" where
  "insert_summary now tbl v =
     (case workflow_id_value (new_cs_workflow_id v) of
        Inl e \<Rightarrow> Inl (e # violation (summary_value (new_cs_summary v)))
      | Inr w \<Rightarrow>
          (case summary_value (new_cs_summary v) of
             Inl e \<Rightarrow> Inl [e]
           | Inr t \<Rightarrow>
               if w \<in> set (map cs_workflow_id tbl) then Inl [UniqueViolation]
               else Inr (tbl @ [\<lparr>cs_workflow_id = w, cs_summary = t, cs_created_at = now,
                                  cs_updated_at = now, cs_user_id = new_cs_user_id v\<rparr>])))"

text \<open>
  Modelled from the spec: \<^verbatim>\<open>upsertSummary(conversationId, text)\<close> of the Persistence
  Gateway, whose code (the Python backend) is not among the sources. The spec gives it
  "upsert semantics (create-if-absent, else overwrite)": when the conversation has a row,
  its summary text and \<^verbatim>\<open>updated_at\<close> are overwritten; otherwise a row is inserted
  through \<open>insert_summary\<close>. The overwrite is an \<^verbatim>\<open>UPDATE\<close> of the text, which
  the database refuses, as it does on insert, for a text that holds U+0000.
\<close>

definition upsertSummary ::
  "nat \<Rightarrow> summary_row list \<Rightarrow> string \<Rightarrow> nat \<Rightarrow> string \<Rightarrow>
   storage_error list + summary_row list" where
  "upsertSummary now tbl w u summaryText =
     (if w \<in> set (map cs_workflow_id tbl)
      then (if CHR 0x00 \<in> set summaryText then Inl [InvalidByteSequence]
            else Inr (map (\<lambda>r. if cs_workflow_id r = w
                                then r\<lparr>cs_summary := Some summaryText, cs_updated_at := now\<rparr>
                                else r) tbl))
      else insert_summary now tbl
             \<lparr>new_cs_workflow_id = Some w, new_cs_summary = Some summaryText,
              new_cs_user_id = u\<rparr>)"

text \<open>
  A history of the summaries table: plain inserts and upserts in the order the database
  executed them; a rejected write leaves the table unchanged.
\<close>

datatype summary_write = Insert summary_values | Upsert string nat string

fun apply_summary_write ::
  "nat \<Rightarrow> summary_row list \<Rightarrow> summary_write \<Rightarrow> storage_error list + summary_row list" where
  "apply_summary_write now tbl (Insert v) = insert_summary now tbl v"
| "apply_summary_write now tbl (Upsert w u summaryText) = upsertSummary now tbl w u summaryText"

fun run_summary_writes ::
  "summary_row list \<Rightarrow> (nat \<times> summary_write) list \<Rightarrow> summary_row list" where
  "run_summary_writes tbl [] = tbl"
| "run_summary_writes tbl ((now, wr) # writes) =
     (case apply_summary_write now tbl wr of
        Inl es \<Rightarrow> run_summary_writes tbl writes
      | Inr tbl' \<Rightarrow> run_summary_writes tbl' writes)"

text \<open>The rows a conversation has in the summaries table.\<close>

definition summaries_of :: "string \<Rightarrow> summary_row list \<Rightarrow> summary_row list" where
  "summaries_of w tbl = filter (\<lambda>r. cs_workflow_id r = w) tbl"

section \<open>The queries of the web UI\<close>

record database =
  conversations :: "conversation_row list"
  conversation_summaries :: "summary_row list"

text \<open>
  An awaited call either throws (its promise rejects) or returns a value. A query sees
  the database as it is when the statement runs, or fails (\<open>Throws\<close>): each
  \<^verbatim>\<open>pool.query\<close> of a route is given the snapshot it meets as a \<open>database outcome\<close>.
\<close>

datatype 'a outcome = Throws | Returns 'a

text \<open>
  \<^verbatim>\<open>SELECT ... FROM public.conversations WHERE workflow_id = $1 AND user_id = $2
  ORDER BY message_order ASC\<close> (send-and-wait/route.ts lines 79-85, and the history route's
  \<^verbatim>\<open>getConversation\<close>). The result rows keep all columns here; the code reads only
  the selected ones. SQL leaves the order of rows with equal \<^verbatim>\<open>message_order\<close>
  open; the model keeps them in insertion order (\<open>sort_key\<close> is stable).
\<close>

definition select_messages :: "conversation_row list \<Rightarrow> string \<Rightarrow> nat \<Rightarrow> conversation_row list" where
  "select_messages tbl w u =
     sort_key message_order (filter (\<lambda>r. workflow_id r = w \<and> user_id r = u) tbl)"

text \<open>\<^verbatim>\<open>SELECT COUNT(*) FROM public.conversations WHERE workflow_id = $1 AND user_id = $2\<close>.\<close>

definition count_messages :: "conversation_row list \<Rightarrow> string \<Rightarrow> nat \<Rightarrow> nat" where
  "count_messages tbl w u = length (filter (\<lambda>r. workflow_id r = w \<and> user_id r = u) tbl)"

text \<open>
  \<^verbatim>\<open>SELECT summary, created_at, updated_at FROM public.conversation_summaries
  WHERE user_id = $1 AND workflow_id = $2\<close>.
\<close>

definition select_summary :: "summary_row list \<Rightarrow> nat \<Rightarrow> string \<Rightarrow> summary_row list" where
  "select_summary tbl u w = filter (\<lambda>r. cs_user_id r = u \<and> cs_workflow_id r = w) tbl"

text \<open>
  The listing query of \<^verbatim>\<open>getAllConversations\<close>: the user's summaries, each with the
  number of the user's messages in that conversation, without duplicates
  (\<^verbatim>\<open>SELECT DISTINCT\<close>), ordered by \<^verbatim>\<open>updated_at DESC\<close>. SQL leaves the order
  of rows with equal \<^verbatim>\<open>updated_at\<close> open; the model keeps them in table order.
\<close>

record listing_row =
  l_workflow_id :: string
  l_summary :: "string option"
  l_created_at :: nat
  l_updated_at :: nat
  message_count :: nat

definition select_listing :: "database \<Rightarrow> nat \<Rightarrow> listing_row list" where
  "select_listing db u =
     sort_key (\<lambda>l. - int (l_updated_at l)) (remdups
       (map (\<lambda>cs. \<lparr>l_workflow_id = cs_workflow_id cs, l_summary = cs_summary cs,
                    l_created_at = cs_created_at cs, l_updated_at = cs_updated_at cs,
                    message_count = count_messages (conversations db) (cs_workflow_id cs) u\<rparr>)
            (filter (\<lambda>cs. cs_user_id cs = u) (conversation_summaries db))))"

section \<open>The routes of the web UI\<close>

subsection \<open>Requests, responses and the calls a route makes\<close>

record user =
  u_id :: nat
  email :: string
  name :: string
  u_created_at :: string

text \<open>
  \<^verbatim>\<open>verifyToken\<close> and \<^verbatim>\<open>getUserById\<close> come from \<^verbatim>\<open>@/lib/auth\<close>, which is not
  among the sources: the routes are parameterised by them. \<^verbatim>\<open>verifyToken\<close> gives the
  decoded \<^verbatim>\<open>userId\<close> or \<^verbatim>\<open>null\<close>, \<^verbatim>\<open>getUserById\<close> the user or \<^verbatim>\<open>null\<close>;
  either may throw.
\<close>

record auth_lib =
  verifyToken :: "string \<Rightarrow> nat option outcome"
  getUserById :: "nat \<Rightarrow> user option outcome"

record conversation =
  c_workflow_id :: string
  messages :: "conversation_row list"
  summary :: "summary_row option"

datatype json_body =
    ErrorBody string
  | ResponseBody string
  | ConversationBody "conversation option"
  | ConversationsBody "listing_row list"

record http_response =
  status :: nat
  body :: json_body

text \<open>
  The helper calls a route makes, in order. Each helper is the only place where its route
  touches the conversation store or starts the chatbot script, so a route that made no
  call has done neither.
\<close>

datatype call =
    GetMessageCount string nat
  | CallPythonChatbot "string list"
  | WaitForResponse string nat nat
  | GetConversation nat string
  | GetAllConversations nat

text \<open>The parsed request body \<^verbatim>\<open>{ message, sessionId }\<close>; \<open>None\<close> is a missing field.\<close>

record chat_body =
  req_message :: "string option"
  req_sessionId :: "string option"

text \<open>
  What the spawned Python process did: its \<^verbatim>\<open>close\<close> event with the exit code
  (\<^verbatim>\<open>null\<close> when a signal ended it), or the \<^verbatim>\<open>error\<close> event of a failed spawn,
  and what it wrote.
\<close>

datatype process_end = Close "int option" | SpawnError

record python_run =
  stdout :: string
  stderr :: string
  ended :: process_end

definition internal_server_error :: http_response where
  "internal_server_error = \<lparr>status = 500, body = ErrorBody ''Internal server error''\<rparr>"

text \<open>\<^verbatim>\<open>userId.toString()\<close> and \<^verbatim>\<open>${user.id}\<close>: the decimal digits of the number.\<close>

definition digit_char :: "nat \<Rightarrow> char" where
  "digit_char d = ''0123456789'' ! d"

fun string_of_nat :: "nat \<Rightarrow> string" where
  "string_of_nat n =
     (if n < 10 then [digit_char n] else string_of_nat (n div 10) @ [digit_char (n mod 10)])"

declare string_of_nat.simps [simp del]

text \<open>
  Lines 9-23 of each route (the same text in \<^verbatim>\<open>send\<close>, \<^verbatim>\<open>send-and-wait\<close> and the
  history route): the early response, or the user. An empty cookie value is falsy, as a
  missing one. A throw lands in the route's \<^verbatim>\<open>catch\<close>, which answers 500.
\<close>

definition authenticate :: "auth_lib \<Rightarrow> string option \<Rightarrow> http_response + user" where
  "authenticate lib token =
     (case token of
        None \<Rightarrow> Inl \<lparr>status = 401, body = ErrorBody ''Not authenticated''\<rparr>
      | Some t \<Rightarrow>
          if t = [] then Inl \<lparr>status = 401, body = ErrorBody ''Not authenticated''\<rparr>
          else
            (case verifyToken lib t of
               Throws \<Rightarrow> Inl internal_server_error
             | Returns None \<Rightarrow> Inl \<lparr>status = 401, body = ErrorBody ''Invalid token''\<rparr>
             | Returns (Some userId) \<Rightarrow>
                 (case getUserById lib userId of
                    Throws \<Rightarrow> Inl internal_server_error
                  | Returns None \<Rightarrow> Inl \<lparr>status = 404, body = ErrorBody ''User not found''\<rparr>
                  | Returns (Some usr) \<Rightarrow> Inr usr)))"

text \<open>\<^verbatim>\<open>!message || !sessionId\<close>: a missing or empty string is falsy.\<close>

definition falsy :: "string option \<Rightarrow> bool" where
  "falsy s = (case s of None \<Rightarrow> True | Some t \<Rightarrow> t = [])"

definition bad_request :: http_response where
  "bad_request = \<lparr>status = 400, body = ErrorBody ''Message and sessionId are required''\<rparr>"

subsection \<open>web-ui/src/app/api/chat/send/route.ts\<close>

definition enqueued_reply :: string where
  "enqueued_reply =
     ''Message sent to chatbot. Please check the workflow for the response or wait for timeout.''"

text \<open>
  \<^verbatim>\<open>callPythonChatbot\<close> of the send route: resolves with the fixed text when the script
  exits with code 0 (what the script printed is collected and never read), rejects on
  any other exit and on a failed spawn.
\<close>

definition send_callPythonChatbot :: "python_run \<Rightarrow> string outcome" where
  "send_callPythonChatbot run =
     (case ended run of
        Close code \<Rightarrow> if code = Some 0 then Returns enqueued_reply else Throws
      | SpawnError \<Rightarrow> Throws)"

definition send_POST ::
  "auth_lib \<Rightarrow> string option \<Rightarrow> chat_body outcome \<Rightarrow> python_run \<Rightarrow> http_response \<times> call list" where
  "send_POST lib token json run =
     (case authenticate lib token of
        Inl early \<Rightarrow> (early, [])
      | Inr usr \<Rightarrow>
          (case json of
             Throws \<Rightarrow> (internal_server_error, [])
           | Returns b \<Rightarrow>
               if falsy (req_message b) \<or> falsy (req_sessionId b) then (bad_request, [])
               else
                 (case (req_message b, req_sessionId b) of
                    (Some msg, Some sessionId) \<Rightarrow>
                      (let workflowId = sessionId @ ''-user-'' @ string_of_nat (u_id usr)
                       in case send_callPythonChatbot run of
                            Throws \<Rightarrow>
                              (internal_server_error, [CallPythonChatbot [workflowId, msg]])
                          | Returns response \<Rightarrow>
                              (\<lparr>status = 200, body = ResponseBody response\<rparr>,
                               [CallPythonChatbot [workflowId, msg]]))
                  | _ \<Rightarrow> (bad_request, []))))"

subsection \<open>web-ui/src/app/api/chat/send-and-wait/route.ts\<close>

text \<open>
  \<^verbatim>\<open>getMessageCount\<close>: the count of the conversation's rows, and 0 when the query
  throws. (\<^verbatim>\<open>parseInt(count) || 0\<close> is the count itself: the database sends the
  decimal digits of a number that is not negative.)
\<close>

definition getMessageCount :: "database outcome \<Rightarrow> string \<Rightarrow> nat \<Rightarrow> nat" where
  "getMessageCount db workflowId userId =
     (case db of
        Throws \<Rightarrow> 0
      | Returns d \<Rightarrow> count_messages (conversations d) workflowId userId)"

definition send_and_wait_callPythonChatbot :: "python_run \<Rightarrow> unit outcome" where
  "send_and_wait_callPythonChatbot run =
     (case ended run of
        Close code \<Rightarrow> if code = Some 0 then Returns () else Throws
      | SpawnError \<Rightarrow> Throws)"

definition maxWaitTime :: int where
  "maxWaitTime = 75000"

definition timeout_reply :: string where
  "timeout_reply =
     ''Sorry, the AI took too long to respond. Please try again or check your conversation history later.''"

text \<open>
  \<^verbatim>\<open>waitForResponse\<close>. The run of the loop is driven by what it observes: for each
  evaluation of the loop condition, the reading of \<^verbatim>\<open>Date.now()\<close> there and the
  database the poll of that iteration meets (\<open>Throws\<close>: the query fails, the
  \<^verbatim>\<open>catch\<close> logs it and the loop goes on). The function returns \<open>None\<close> when the
  observations end while the loop is still running.
\<close>

fun waitForResponse ::
  "string \<Rightarrow> nat \<Rightarrow> nat \<Rightarrow> int \<Rightarrow> (int \<times> database outcome) list \<Rightarrow> string option" where
  "waitForResponse workflowId userId initialCount startTime [] = None"
| "waitForResponse workflowId userId initialCount startTime ((now, db) # polls) =
     (if now - startTime < maxWaitTime then
        (case db of
           Throws \<Rightarrow> waitForResponse workflowId userId initialCount startTime polls
         | Returns d \<Rightarrow>
             (let msgs = select_messages (conversations d) workflowId userId
              in if initialCount < length msgs then
                   (case find (\<lambda>msg. speaker msg = ''response'') (drop initialCount msgs) of
                      Some botResponse \<Rightarrow> Some (message botResponse)
                    | None \<Rightarrow> waitForResponse workflowId userId initialCount startTime polls)
                 else waitForResponse workflowId userId initialCount startTime polls))
      else Some timeout_reply)"

text \<open>
  The claim's wording of one poll: the first turn of the assistant at a position beyond
  the baseline in the conversation as the poll finds it, if there is one.
\<close>

definition new_reply :: "nat \<Rightarrow> database outcome \<Rightarrow> string \<Rightarrow> nat \<Rightarrow> conversation_row option" where
  "new_reply baseline db w u =
     (case db of
        Throws \<Rightarrow> None
      | Returns d \<Rightarrow>
          find (\<lambda>msg. speaker msg = ''response'')
            (drop baseline (select_messages (conversations d) w u)))"

text \<open>
  \<^verbatim>\<open>POST\<close> of send-and-wait: \<open>countDb\<close> is the database the count query meets,
  \<open>startTime\<close> and \<open>polls\<close> are what \<open>waitForResponse\<close> observes.
\<close>

definition send_and_wait_POST ::
  "auth_lib \<Rightarrow> string option \<Rightarrow> chat_body outcome \<Rightarrow> database outcome \<Rightarrow> python_run \<Rightarrow>
   int \<Rightarrow> (int \<times> database outcome) list \<Rightarrow> (http_response \<times> call list) option" where
  "send_and_wait_POST lib token json countDb run startTime polls =
     (case authenticate lib token of
        Inl early \<Rightarrow> Some (early, [])
      | Inr usr \<Rightarrow>
          (case json of
             Throws \<Rightarrow> Some (internal_server_error, [])
           | Returns b \<Rightarrow>
               if falsy (req_message b) \<or> falsy (req_sessionId b) then Some (bad_request, [])
               else
                 (case (req_message b, req_sessionId b) of
                    (Some msg, Some sessionId) \<Rightarrow>
                      (let workflowId = sessionId;
                           initialCount = getMessageCount countDb workflowId (u_id usr);
                           spawned = CallPythonChatbot [workflowId, msg, string_of_nat (u_id usr)]
                       in case send_and_wait_callPythonChatbot run of
                            Throws \<Rightarrow>
                              Some (internal_server_error,
                                    [GetMessageCount workflowId (u_id usr), spawned])
                          | Returns _ \<Rightarrow>
                              (case waitForResponse workflowId (u_id usr) initialCount startTime polls of
                                 None \<Rightarrow> None
                               | Some response \<Rightarrow>
                                   Some (\<lparr>status = 200, body = ResponseBody response\<rparr>,
                                         [GetMessageCount workflowId (u_id usr), spawned,
                                          WaitForResponse workflowId (u_id usr) initialCount])))
                  | _ \<Rightarrow> Some (bad_request, []))))"

subsection \<open>The history route (\<^verbatim>\<open>GET\<close>, \<^verbatim>\<open>getConversation\<close>, \<^verbatim>\<open>getAllConversations\<close>)\<close>

text \<open>
  \<^verbatim>\<open>getConversation\<close>: two queries in one \<^verbatim>\<open>try\<close>; if either throws the function
  returns \<^verbatim>\<open>null\<close> (\<open>None\<close>). \<^verbatim>\<open>summaryResult.rows[0] || null\<close> is the first
  summary row, if any.
\<close>

definition getConversation ::
  "database outcome \<Rightarrow> database outcome \<Rightarrow> nat \<Rightarrow> string \<Rightarrow> conversation option" where
  "getConversation messagesDb summaryDb userId workflowId =
     (case messagesDb of
        Throws \<Rightarrow> None
      | Returns d1 \<Rightarrow>
          (case summaryDb of
             Throws \<Rightarrow> None
           | Returns d2 \<Rightarrow>
               Some \<lparr>c_workflow_id = workflowId,
                     messages = select_messages (conversations d1) workflowId userId,
                     summary =
                       (case select_summary (conversation_summaries d2) userId workflowId of
                          [] \<Rightarrow> None
                        | r # _ \<Rightarrow> Some r)\<rparr>))"

definition getAllConversations :: "database outcome \<Rightarrow> nat \<Rightarrow> listing_row list" where
  "getAllConversations db userId =
     (case db of
        Throws \<Rightarrow> []
      | Returns d \<Rightarrow> select_listing d userId)"

text \<open>
  \<^verbatim>\<open>GET\<close>: \<open>workflowId\<close> is the query parameter (\<open>None\<close> when absent; an empty
  one is falsy). \<open>db1\<close> and \<open>db2\<close> are the databases the first and the second
  query of the request meet.
\<close>

definition history_GET ::
  "auth_lib \<Rightarrow> string option \<Rightarrow> string option \<Rightarrow> database outcome \<Rightarrow> database outcome \<Rightarrow>
   http_response \<times> call list" where
  "history_GET lib token workflowId db1 db2 =
     (case authenticate lib token of
        Inl early \<Rightarrow> (early, [])
      | Inr usr \<Rightarrow>
          (case workflowId of
             Some w \<Rightarrow>
               if w \<noteq> [] then
                 (\<lparr>status = 200, body = ConversationBody (getConversation db1 db2 (u_id usr) w)\<rparr>,
                  [GetConversation (u_id usr) w])
               else
                 (\<lparr>status = 200, body = ConversationsBody (getAllConversations db1 (u_id usr))\<rparr>,
                  [GetAllConversations (u_id usr)])
           | None \<Rightarrow>
               (\<lparr>status = 200, body = ConversationsBody (getAllConversations db1 (u_id usr))\<rparr>,
                [GetAllConversations (u_id usr)])))"

subsection \<open>An authentication library for the examples\<close>

text \<open>
  The token \<open>good\<close> decodes to user 7, who exists; the token \<open>stale\<close> decodes to
  user 8, who does not; every other token fails verification.
\<close>

definition example_user :: user where
  "example_user = \<lparr>u_id = 7, email = ''ada@example.org'', name = ''Ada'', u_created_at = ''2025-01-01''\<rparr>"

definition example_lib :: auth_lib where
  "example_lib =
     \<lparr>verifyToken = (\<lambda>t. if t = ''good'' then Returns (Some 7)
                          else if t = ''stale'' then Returns (Some 8)
                          else Returns None),
      getUserById = (\<lambda>i. if i = 7 then Returns (Some example_user) else Returns None)\<rparr>"

subsection \<open>A conversation for the examples\<close>

text \<open>
  Conversation \<open>s1\<close> of user 7: a first exchange, then a second user message and its
  reply. \<open>example_db k\<close> is the database when the first \<open>k\<close> of these four turns
  have been persisted. \<open>example_run\<close> is a run of the script that exits with code 0.
\<close>

definition example_table :: "conversation_row list" where
  "example_table =
     run_inserts []
       [(10, turn_values ''s1'' 7 ''user'' ''hi'' 1),
        (20, turn_values ''s1'' 7 ''response'' ''old reply'' 2),
        (30, turn_values ''s1'' 7 ''user'' ''and now?'' 3),
        (40, turn_values ''s1'' 7 ''response'' ''fresh reply'' 4)]"

definition example_db :: "nat \<Rightarrow> database" where
  "example_db k = \<lparr>conversations = take k example_table, conversation_summaries = []\<rparr>"

definition example_run :: python_run where
  "example_run = \<lparr>stdout = ''Message sent'', stderr = [], ended = Close (Some 0)\<rparr>"

section \<open>Properties of the conversation table\<close>

lemma varchar_Some:
  "varchar n s = Some s' \<longleftrightarrow> (\<forall>c \<in> set (drop n s). c = CHR '' '') \<and> s' = take n s"
  by (auto simp: varchar_def)

lemma varchar_None:
  "varchar n s = None \<longleftrightarrow> \<not> (\<forall>c \<in> set (drop n s). c = CHR '' '')"
  by (auto simp: varchar_def)

lemma workflow_id_value_Some:
  "workflow_id_value (Some w) = Inr w' \<longleftrightarrow>
     CHR 0x00 \<notin> set w \<and> (\<forall>c \<in> set (drop 255 w). c = CHR '' '') \<and> w' = take 255 w"
  apply (simp add: workflow_id_value_def varchar_Some varchar_None split: option.splits)
  apply blast
  done























lemmas store_eval =
  insert_conversation_def conversation_row_of_def conversation_violations_def
  workflow_id_value_def speaker_value_def message_value_def message_order_value_def
  varchar_def violation_def turn_values_def










section \<open>Properties of the history read and of the summaries table\<close>

lemma example_table_rows:
  "example_table =
     [\<lparr>workflow_id = ''s1'', speaker = ''user'', message = ''hi'',
       message_order = 1, created_at = 10, user_id = 7\<rparr>,
      \<lparr>workflow_id = ''s1'', speaker = ''response'', message = ''old reply'',
       message_order = 2, created_at = 20, user_id = 7\<rparr>,
      \<lparr>workflow_id = ''s1'', speaker = ''user'', message = ''and now?'',
       message_order = 3, created_at = 30, user_id = 7\<rparr>,
      \<lparr>workflow_id = ''s1'', speaker = ''response'', message = ''fresh reply'',
       message_order = 4, created_at = 40, user_id = 7\<rparr>]"
  by (simp add: example_table_def store_eval)

lemma example_select:
  "select_messages (conversations (example_db 2)) ''s1'' 7 = take 2 example_table"
  "select_messages (conversations (example_db 3)) ''s1'' 7 = take 3 example_table"
  "select_messages (conversations (example_db 4)) ''s1'' 7 = example_table"
  by (simp_all add: example_db_def example_table_rows select_messages_def)

lemma select_messages_mset:
  "mset (select_messages tbl w u) = mset (filter (\<lambda>r. workflow_id r = w \<and> user_id r = u) tbl)"
  by (simp add: select_messages_def)

lemma select_messages_sorted:
  "sorted (map message_order (select_messages tbl w u))"
  by (simp add: select_messages_def)

lemma select_messages_in_order:
  assumes "sorted_wrt (<) (map message_order (filter (\<lambda>r. workflow_id r = w \<and> user_id r = u) tbl))"
  shows "select_messages tbl w u = filter (\<lambda>r. workflow_id r = w \<and> user_id r = u) tbl"
proof -
  from assms have "sorted (map message_order (filter (\<lambda>r. workflow_id r = w \<and> user_id r = u) tbl))"
    by (rule strict_sorted_imp_sorted)
  then show ?thesis
    unfolding select_messages_def by (rule sort_key_id_if_sorted)
qed



lemma distinct_key_filter_le1:
  "distinct (map k xs) \<Longrightarrow> length (filter (\<lambda>x. k x = a) xs) \<le> 1"
proof (induction xs)
  case Nil
  then show ?case by simp
next
  case (Cons x xs)
  show ?case
  proof (cases "k x = a")
    case True
    with Cons.prems have "a \<notin> k ` set xs" by auto
    then have "filter (\<lambda>x. k x = a) xs = []"
      by (auto simp: filter_empty_conv)
    with True show ?thesis by simp
  next
    case False
    with Cons show ?thesis by simp
  qed
qed

lemma summary_value_Some:
  "summary_value (Some t) = Inr t' \<longleftrightarrow> CHR 0x00 \<notin> set t \<and> t' = Some t"
  by (simp add: summary_value_def) blast

lemma insert_summary_Inr:
  assumes "insert_summary now tbl v = Inr tbl'"
  shows "\<exists>r. tbl' = tbl @ [r] \<and> cs_workflow_id r \<notin> set (map cs_workflow_id tbl)"
proof (cases "workflow_id_value (new_cs_workflow_id v)")
  case (Inl e)
  with assms show ?thesis by (simp add: insert_summary_def)
next
  case w: (Inr w)
  show ?thesis
  proof (cases "summary_value (new_cs_summary v)")
    case (Inl e)
    with w assms show ?thesis by (simp add: insert_summary_def)
  next
    case t: (Inr t)
    show ?thesis
    proof (cases "w \<in> set (map cs_workflow_id tbl)")
      case True
      with w t assms show ?thesis by (simp add: insert_summary_def)
    next
      case False
      with w t assms have "tbl' = tbl @ [\<lparr>cs_workflow_id = w, cs_summary = t, cs_created_at = now,
          cs_updated_at = now, cs_user_id = new_cs_user_id v\<rparr>]"
        by (simp add: insert_summary_def)
      with False show ?thesis by simp
    qed
  qed
qed

lemma insert_summary_distinct:
  assumes "distinct (map cs_workflow_id tbl)" and "insert_summary now tbl v = Inr tbl'"
  shows "distinct (map cs_workflow_id tbl')"
proof -
  from assms(2) obtain r where "tbl' = tbl @ [r]" and "cs_workflow_id r \<notin> set (map cs_workflow_id tbl)"
    using insert_summary_Inr by blast
  with assms(1) show ?thesis by simp
qed

lemma overwrite_keeps_ids:
  "map cs_workflow_id
     (map (\<lambda>r. if cs_workflow_id r = w then r\<lparr>cs_summary := Some summaryText, cs_updated_at := now\<rparr> else r) tbl)
   = map cs_workflow_id tbl"
  by (induction tbl) auto

lemma upsertSummary_distinct:
  assumes "distinct (map cs_workflow_id tbl)" and "upsertSummary now tbl w u summaryText = Inr tbl'"
  shows "distinct (map cs_workflow_id tbl')"
proof (cases "w \<in> set (map cs_workflow_id tbl)")
  case True
  with assms(2) have "map cs_workflow_id tbl' = map cs_workflow_id tbl"
    by (auto simp: upsertSummary_def overwrite_keeps_ids simp del: map_map split: if_splits)
  with assms(1) show ?thesis by simp
next
  case False
  with assms(2) have "insert_summary now tbl
      \<lparr>new_cs_workflow_id = Some w, new_cs_summary = Some summaryText, new_cs_user_id = u\<rparr> = Inr tbl'"
    by (simp add: upsertSummary_def)
  with assms(1) show ?thesis by (rule insert_summary_distinct)
qed

lemma run_summary_writes_distinct:
  "distinct (map cs_workflow_id tbl) \<Longrightarrow> distinct (map cs_workflow_id (run_summary_writes tbl writes))"
proof (induction writes arbitrary: tbl)
  case Nil
  then show ?case by simp
next
  case (Cons a writes)
  obtain now wr where a: "a = (now, wr)" by (cases a)
  show ?case
  proof (cases "apply_summary_write now tbl wr")
    case (Inl e)
    with a Cons show ?thesis by simp
  next
    case (Inr tbl')
    have "distinct (map cs_workflow_id tbl')"
    proof (cases wr)
      case (Insert v)
      with Inr have "insert_summary now tbl v = Inr tbl'" by simp
      with Cons.prems show ?thesis by (rule insert_summary_distinct)
    next
      case (Upsert w u t)
      with Inr have "upsertSummary now tbl w u t = Inr tbl'" by simp
      with Cons.prems show ?thesis by (rule upsertSummary_distinct)
    qed
    then have "distinct (map cs_workflow_id (run_summary_writes tbl' writes))"
      by (rule Cons.IH)
    with Inr a show ?thesis by simp
  qed
qed

lemma overwrite_other:
  "w' \<noteq> w \<Longrightarrow>
   summaries_of w'
     (map (\<lambda>r. if cs_workflow_id r = w then r\<lparr>cs_summary := Some summaryText, cs_updated_at := now\<rparr> else r) tbl)
   = summaries_of w' tbl"
  by (induction tbl) (auto simp: summaries_of_def)

lemma overwrite_own:
  "summaries_of w
     (map (\<lambda>r. if cs_workflow_id r = w then r\<lparr>cs_summary := Some summaryText, cs_updated_at := now\<rparr> else r) tbl)
   = map (\<lambda>r. r\<lparr>cs_summary := Some summaryText, cs_updated_at := now\<rparr>) (summaries_of w tbl)"
  by (induction tbl) (auto simp: summaries_of_def)

lemma summaries_of_present:
  assumes "distinct (map cs_workflow_id tbl)" and "w \<in> set (map cs_workflow_id tbl)"
  obtains r0 where "summaries_of w tbl = [r0]"
proof -
  from assms(1) have "length (summaries_of w tbl) \<le> 1"
    unfolding summaries_of_def by (rule distinct_key_filter_le1)
  moreover from assms(2) have "summaries_of w tbl \<noteq> []"
    by (auto simp: summaries_of_def filter_empty_conv)
  ultimately have "length (summaries_of w tbl) = 1"
    by (cases "summaries_of w tbl") auto
  then obtain r0 where "summaries_of w tbl = [r0]"
    by (auto simp: length_Suc_conv)
  then show ?thesis by (rule that)
qed

lemma summaries_of_absent:
  "w \<notin> set (map cs_workflow_id tbl) \<Longrightarrow> summaries_of w tbl = []"
  by (auto simp: summaries_of_def filter_empty_conv)

lemma upsertSummary_spec:
  assumes d: "distinct (map cs_workflow_id tbl)" and len: "length w \<le> 255"
    and wz: "CHR 0x00 \<notin> set w" and tz: "CHR 0x00 \<notin> set summaryText"
  shows "\<exists>tbl' r. upsertSummary now tbl w u summaryText = Inr tbl' \<and> summaries_of w tbl' = [r] \<and>
           cs_summary r = Some summaryText \<and> cs_updated_at r = now \<and>
           (\<forall>w'. w' \<noteq> w \<longrightarrow> summaries_of w' tbl' = summaries_of w' tbl) \<and>
           (if summaries_of w tbl = [] then tbl' = tbl @ [r] else length tbl' = length tbl)"
proof (cases "w \<in> set (map cs_workflow_id tbl)")
  case True
  let ?f = "\<lambda>r. if cs_workflow_id r = w then r\<lparr>cs_summary := Some summaryText, cs_updated_at := now\<rparr> else r"
  from d True obtain r0 where r0: "summaries_of w tbl = [r0]"
    by (rule summaries_of_present)
  have up: "upsertSummary now tbl w u summaryText = Inr (map ?f tbl)"
    using True tz by (simp add: upsertSummary_def)
  have own: "summaries_of w (map ?f tbl) = [r0\<lparr>cs_summary := Some summaryText, cs_updated_at := now\<rparr>]"
    by (simp add: overwrite_own r0)
  have other: "\<forall>w'. w' \<noteq> w \<longrightarrow> summaries_of w' (map ?f tbl) = summaries_of w' tbl"
    by (simp add: overwrite_other)
  from up own other r0 show ?thesis
    by simp
next
  case False
  let ?r = "\<lparr>cs_workflow_id = w, cs_summary = Some summaryText,
             cs_created_at = now, cs_updated_at = now, cs_user_id = u\<rparr>"
  from len wz have "workflow_id_value (Some w) = Inr w"
    by (simp add: workflow_id_value_Some)
  moreover from tz have "summary_value (Some summaryText) = Inr (Some summaryText)"
    by (simp add: summary_value_Some)
  ultimately have up: "upsertSummary now tbl w u summaryText = Inr (tbl @ [?r])"
    using False by (simp add: upsertSummary_def insert_summary_def)
  have absent: "summaries_of w tbl = []"
    using False by (rule summaries_of_absent)
  then have own: "summaries_of w (tbl @ [?r]) = [?r]"
    by (simp add: summaries_of_def)
  have other: "\<forall>w'. w' \<noteq> w \<longrightarrow> summaries_of w' (tbl @ [?r]) = summaries_of w' tbl"
    by (simp add: summaries_of_def)
  from up own other absent show ?thesis
    by simp
qed

text \<open>
  Claim C6. Whatever inserts and upserts are executed on the summaries table, it holds
  at most one row per conversation (the \<^verbatim>\<open>UNIQUE\<close> constraint rejects a second
  one). An upsert on such a table, of values the table can store (an id of at most 255
  characters, no U+0000), succeeds and leaves exactly one row for the
  conversation, carrying the new summary text: appended when the conversation had no
  row, overwritten in place (the table keeps its length) otherwise; the rows of every
  other conversation are untouched.
\<close>

theorem at_most_one_summary_row:
  "distinct (map cs_workflow_id (run_summary_writes [] writes)) \<and>
   length (summaries_of w (run_summary_writes [] writes)) \<le> 1 \<and>
   (distinct (map cs_workflow_id tbl) \<and> length w \<le> 255 \<and>
    CHR 0x00 \<notin> set w \<and> CHR 0x00 \<notin> set summaryText \<longrightarrow>
      (\<exists>tbl' r. upsertSummary now tbl w u summaryText = Inr tbl' \<and> summaries_of w tbl' = [r] \<and>
           cs_summary r = Some summaryText \<and> cs_updated_at r = now \<and>
           (\<forall>w'. w' \<noteq> w \<longrightarrow> summaries_of w' tbl' = summaries_of w' tbl) \<and>
           (if summaries_of w tbl = [] then tbl' = tbl @ [r] else length tbl' = length tbl)))"
proof (intro conjI impI)
  show d: "distinct (map cs_workflow_id (run_summary_writes [] writes))"
    by (rule run_summary_writes_distinct) simp
  then show "length (summaries_of w (run_summary_writes [] writes)) \<le> 1"
    unfolding summaries_of_def by (rule distinct_key_filter_le1)
next
  assume "distinct (map cs_workflow_id tbl) \<and> length w \<le> 255 \<and>
    CHR 0x00 \<notin> set w \<and> CHR 0x00 \<notin> set summaryText"
  then show "\<exists>tbl' r. upsertSummary now tbl w u summaryText = Inr tbl' \<and> summaries_of w tbl' = [r] \<and>
           cs_summary r = Some summaryText \<and> cs_updated_at r = now \<and>
           (\<forall>w'. w' \<noteq> w \<longrightarrow> summaries_of w' tbl' = summaries_of w' tbl) \<and>
           (if summaries_of w tbl = [] then tbl' = tbl @ [r] else length tbl' = length tbl)"
    using upsertSummary_spec by blast
qed

text \<open>
  The table holds the summary \<open>first\<close> of conversation \<open>s1\<close> and the summary
  \<open>other\<close> of \<open>s2\<close>; the upsert of \<open>second\<close> for \<open>s1\<close> leaves one row for
  \<open>s1\<close>, with the new text, in a table of the same length, and the row of \<open>s2\<close>
  as it was.
\<close>

theorem at_most_one_summary_row_witness:
  "distinct (map cs_workflow_id
     [\<lparr>cs_workflow_id = ''s1'', cs_summary = Some ''first'', cs_created_at = 3,
       cs_updated_at = 3, cs_user_id = 1\<rparr>,
      \<lparr>cs_workflow_id = ''s2'', cs_summary = Some ''other'', cs_created_at = 4,
       cs_updated_at = 4, cs_user_id = 1\<rparr>]) \<and>
   length ''s1'' \<le> 255 \<and>
   (\<exists>tbl' r. upsertSummary 7
       [\<lparr>cs_workflow_id = ''s1'', cs_summary = Some ''first'', cs_created_at = 3,
         cs_updated_at = 3, cs_user_id = 1\<rparr>,
        \<lparr>cs_workflow_id = ''s2'', cs_summary = Some ''other'', cs_created_at = 4,
         cs_updated_at = 4, cs_user_id = 1\<rparr>] ''s1'' 1 ''second'' = Inr tbl' \<and>
      summaries_of ''s1'' tbl' = [r] \<and> cs_summary r = Some ''second'' \<and> length tbl' = 2 \<and>
      summaries_of ''s2'' tbl' =
        [\<lparr>cs_workflow_id = ''s2'', cs_summary = Some ''other'', cs_created_at = 4,
          cs_updated_at = 4, cs_user_id = 1\<rparr>])"
  (is "distinct (map cs_workflow_id ?tbl) \<and> _ \<and> _")
proof -
  have hyp: "distinct (map cs_workflow_id ?tbl) \<and> length ''s1'' \<le> 255 \<and>
      CHR 0x00 \<notin> set ''s1'' \<and> CHR 0x00 \<notin> set ''second''"
    by simp
  have own: "summaries_of ''s1'' ?tbl \<noteq> []" and other: "summaries_of ''s2'' ?tbl = [?tbl ! 1]"
    by (simp_all add: summaries_of_def)
  from at_most_one_summary_row
    [where tbl = ?tbl and w = "''s1''" and now = 7 and u = 1 and summaryText = "''second''"
       and writes = "[]"] hyp
  obtain tbl' r where up: "upsertSummary 7 ?tbl ''s1'' 1 ''second'' = Inr tbl'"
    and r: "summaries_of ''s1'' tbl' = [r]" "cs_summary r = Some ''second''"
    and rest: "\<forall>w'. w' \<noteq> ''s1'' \<longrightarrow> summaries_of w' tbl' = summaries_of w' ?tbl"
    and len: "if summaries_of ''s1'' ?tbl = [] then tbl' = ?tbl @ [r] else length tbl' = length ?tbl"
    by blast
  from len own have l2: "length tbl' = 2"
    by simp
  from rest have "summaries_of ''s2'' tbl' = summaries_of ''s2'' ?tbl"
    by simp
  with other have o: "summaries_of ''s2'' tbl' = [?tbl ! 1]"
    by simp
  from up r l2 o have "\<exists>tbl' r. upsertSummary 7 ?tbl ''s1'' 1 ''second'' = Inr tbl' \<and>
      summaries_of ''s1'' tbl' = [r] \<and> cs_summary r = Some ''second'' \<and> length tbl' = 2 \<and>
      summaries_of ''s2'' tbl' = [?tbl ! 1]"
    by blast
  with hyp show ?thesis by simp
qed

section \<open>Properties of the routes\<close>

lemma authenticate_example_good: "authenticate example_lib (Some ''good'') = Inr example_user"
  by (simp add: authenticate_def example_lib_def)

lemma new_reply_Some:
  assumes "new_reply baseline db w u = Some m"
  shows "speaker m = ''response'' \<and> workflow_id m = w \<and> user_id m = u \<and>
         (\<exists>d msgs i. db = Returns d \<and>
            mset msgs = mset (filter (\<lambda>r. workflow_id r = w \<and> user_id r = u) (conversations d)) \<and>
            sorted (map message_order msgs) \<and>
            baseline \<le> i \<and> i < length msgs \<and> msgs ! i = m \<and>
            (\<forall>j. baseline \<le> j \<and> j < i \<longrightarrow> speaker (msgs ! j) \<noteq> ''response''))"
proof -
  from assms obtain d where d: "db = Returns d"
    and f: "find (\<lambda>msg. speaker msg = ''response'')
              (drop baseline (select_messages (conversations d) w u)) = Some m"
    by (auto simp: new_reply_def split: outcome.splits)
  let ?msgs = "select_messages (conversations d) w u"
  from f obtain k where k: "k < length (drop baseline ?msgs)"
    and sp: "speaker (drop baseline ?msgs ! k) = ''response''"
    and m: "m = drop baseline ?msgs ! k"
    and first: "\<forall>j<k. speaker (drop baseline ?msgs ! j) \<noteq> ''response''"
    unfolding find_Some_iff by blast
  from k have lt: "baseline + k < length ?msgs" by simp
  with m have at: "?msgs ! (baseline + k) = m" by simp
  have before: "\<forall>j. baseline \<le> j \<and> j < baseline + k \<longrightarrow> speaker (?msgs ! j) \<noteq> ''response''"
  proof (intro allI impI)
    fix j
    assume j: "baseline \<le> j \<and> j < baseline + k"
    then have "j - baseline < k" by arith
    with first have "speaker (drop baseline ?msgs ! (j - baseline)) \<noteq> ''response''"
      by blast
    moreover from j lt have "drop baseline ?msgs ! (j - baseline) = ?msgs ! j"
      by simp
    ultimately show "speaker (?msgs ! j) \<noteq> ''response''" by simp
  qed
  have ms: "mset ?msgs = mset (filter (\<lambda>r. workflow_id r = w \<and> user_id r = u) (conversations d))"
    by (rule select_messages_mset)
  have so: "sorted (map message_order ?msgs)"
    by (rule select_messages_sorted)
  from lt at have "m \<in> set ?msgs"
    by (auto simp: in_set_conv_nth)
  then have "m \<in> set (filter (\<lambda>r. workflow_id r = w \<and> user_id r = u) (conversations d))"
    by (simp add: select_messages_def)
  then have own: "workflow_id m = w \<and> user_id m = u"
    by simp
  from sp m have tag: "speaker m = ''response''" by simp
  have "\<exists>d msgs i. db = Returns d \<and>
            mset msgs = mset (filter (\<lambda>r. workflow_id r = w \<and> user_id r = u) (conversations d)) \<and>
            sorted (map message_order msgs) \<and>
            baseline \<le> i \<and> i < length msgs \<and> msgs ! i = m \<and>
            (\<forall>j. baseline \<le> j \<and> j < i \<longrightarrow> speaker (msgs ! j) \<noteq> ''response'')"
    using d ms so lt at before
    by (intro exI [of _ d] exI [of _ ?msgs] exI [of _ "baseline + k"]) simp
  with tag own show ?thesis by simp
qed

lemma find_filter:
  "find P (filter Q xs) = find (\<lambda>x. Q x \<and> P x) xs"
  by (induction xs) simp_all

lemma strictly_increasing_for_user:
  assumes "sorted_wrt (<) (persisted_orders w tbl)"
  shows "sorted_wrt (<) (map message_order (filter (\<lambda>r. workflow_id r = w \<and> user_id r = u) tbl))"
proof -
  from assms have "sorted_wrt (\<lambda>x y. message_order x < message_order y)
      (filter (\<lambda>r. workflow_id r = w) tbl)"
    by (simp add: persisted_orders_def sorted_wrt_map)
  then have "sorted_wrt (\<lambda>x y. message_order x < message_order y)
      (filter (\<lambda>r. user_id r = u) (filter (\<lambda>r. workflow_id r = w) tbl))"
    by (rule sorted_wrt_filter)
  then show ?thesis
    by (simp add: sorted_wrt_map)
qed

lemma new_reply_after_baseline:
  assumes tbl: "conversations d = tbl0 @ added"
    and inc: "sorted_wrt (<) (persisted_orders w (conversations d))"
  shows "new_reply (count_messages tbl0 w u) (Returns d) w u
         = find (\<lambda>r. workflow_id r = w \<and> user_id r = u \<and> speaker r = ''response'') added"
proof -
  let ?p = "\<lambda>r. workflow_id r = w \<and> user_id r = u"
  from inc have "sorted_wrt (<) (map message_order (filter ?p (conversations d)))"
    by (rule strictly_increasing_for_user)
  then have "select_messages (conversations d) w u = filter ?p (conversations d)"
    by (rule select_messages_in_order)
  with tbl have sel: "select_messages (conversations d) w u = filter ?p tbl0 @ filter ?p added"
    by simp
  have "drop (count_messages tbl0 w u) (filter ?p tbl0 @ filter ?p added) = filter ?p added"
    by (simp add: count_messages_def)
  with sel have "new_reply (count_messages tbl0 w u) (Returns d) w u
      = find (\<lambda>msg. speaker msg = ''response'') (filter ?p added)"
    by (simp add: new_reply_def)
  also have "\<dots> = find (\<lambda>r. ?p r \<and> speaker r = ''response'') added"
    by (rule find_filter)
  also have "\<dots> = find (\<lambda>r. workflow_id r = w \<and> user_id r = u \<and> speaker r = ''response'') added"
    by (simp only: conj_assoc)
  finally show ?thesis .
qed

lemma waitForResponse_found:
  assumes "now - startTime < maxWaitTime" and "new_reply initialCount db w u = Some m"
  shows "waitForResponse w u initialCount startTime ((now, db) # polls) = Some (message m)"
proof -
  from assms(2) obtain d where d: "db = Returns d"
    and f: "find (\<lambda>msg. speaker msg = ''response'')
              (drop initialCount (select_messages (conversations d) w u)) = Some m"
    by (auto simp: new_reply_def split: outcome.splits)
  from f have "drop initialCount (select_messages (conversations d) w u) \<noteq> []"
    by auto
  then have "initialCount < length (select_messages (conversations d) w u)"
    by simp
  with assms(1) d f show ?thesis
    by simp
qed

lemma waitForResponse_skip:
  assumes "now - startTime < maxWaitTime" and "new_reply initialCount db w u = None"
  shows "waitForResponse w u initialCount startTime ((now, db) # polls)
         = waitForResponse w u initialCount startTime polls"
  using assms by (cases db) (simp_all add: new_reply_def Let_def)

lemma waitForResponse_timeout:
  assumes "maxWaitTime \<le> now - startTime"
  shows "waitForResponse w u initialCount startTime ((now, db) # polls) = Some timeout_reply"
  using assms by simp

lemma waitForResponse_skip_all:
  assumes "\<forall>(t, db) \<in> set pre. t - startTime < maxWaitTime \<and> new_reply initialCount db w u = None"
  shows "waitForResponse w u initialCount startTime (pre @ polls)
         = waitForResponse w u initialCount startTime polls"
  using assms
proof (induction pre)
  case Nil
  then show ?case by simp
next
  case (Cons p pre)
  obtain t db where p: "p = (t, db)" by (cases p)
  from Cons.prems p have "t - startTime < maxWaitTime" and "new_reply initialCount db w u = None"
    by auto
  then have "waitForResponse w u initialCount startTime ((t, db) # (pre @ polls))
         = waitForResponse w u initialCount startTime (pre @ polls)"
    by (rule waitForResponse_skip)
  moreover from Cons.prems have "waitForResponse w u initialCount startTime (pre @ polls)
         = waitForResponse w u initialCount startTime polls"
    by (intro Cons.IH) simp
  ultimately show ?case using p by simp
qed

lemma waitForResponse_returns:
  assumes "\<exists>(t, db) \<in> set polls. maxWaitTime \<le> t - startTime"
  shows "\<exists>reply. waitForResponse w u initialCount startTime polls = Some reply"
  using assms
proof (induction polls)
  case Nil
  then show ?case by simp
next
  case (Cons p polls)
  obtain t db where p: "p = (t, db)" by (cases p)
  show ?case
  proof (cases "t - startTime < maxWaitTime")
    case False
    with p show ?thesis by simp
  next
    case True
    with Cons.prems p have "\<exists>(t, db) \<in> set polls. maxWaitTime \<le> t - startTime"
      by auto
    then have IH: "\<exists>reply. waitForResponse w u initialCount startTime polls = Some reply"
      by (rule Cons.IH)
    show ?thesis
    proof (cases "new_reply initialCount db w u")
      case None
      with True have "waitForResponse w u initialCount startTime ((t, db) # polls)
         = waitForResponse w u initialCount startTime polls"
        by (rule waitForResponse_skip)
      with IH p show ?thesis by simp
    next
      case (Some m)
      with True have "waitForResponse w u initialCount startTime ((t, db) # polls) = Some (message m)"
        by (rule waitForResponse_found)
      with p show ?thesis by simp
    qed
  qed
qed

text \<open>
  Claim C3. Positions are counted in the conversation as the poll's query returns it: the
  turns of conversation \<open>w\<close> of user \<open>u\<close> in ascending \<^verbatim>\<open>message_order\<close>.
  Let the polls before some poll all fall before the timeout and find (or fail to read)
  no turn of the assistant at a position beyond the baseline. If that poll falls before
  the timeout and finds such a turn, \<open>waitForResponse\<close> returns the text of the first
  of them: a row of the polled table, of that conversation and user, tagged
  \<open>response\<close>, with no turn of the assistant between the baseline and it. If instead
  the timeout has elapsed when the loop condition is evaluated, it returns the fixed
  text \<open>timeout_reply\<close>, not an error. Whenever some observation lies at or after the
  timeout, the function returns. And with the baseline taken as the count of the
  conversation in a table \<open>tbl0\<close>, a poll of a table that extends \<open>tbl0\<close> by
  the rows \<open>added\<close>, the turns persisted in strictly increasing sequence-number
  order, finds exactly the first turn of the assistant among \<open>added\<close>: a reply
  persisted after the baseline, never one already seen.
\<close>

theorem waitForResponse_reply_or_timeout:
  assumes "\<forall>(t, db) \<in> set pre. t - startTime < maxWaitTime \<and> new_reply initialCount db w u = None"
  shows "(now - startTime < maxWaitTime \<and> new_reply initialCount db w u = Some m \<longrightarrow>
            waitForResponse w u initialCount startTime (pre @ (now, db) # rest) = Some (message m) \<and>
            speaker m = ''response'' \<and> workflow_id m = w \<and> user_id m = u \<and>
            (\<exists>d msgs i. db = Returns d \<and>
               mset msgs = mset (filter (\<lambda>r. workflow_id r = w \<and> user_id r = u) (conversations d)) \<and>
               sorted (map message_order msgs) \<and>
               initialCount \<le> i \<and> i < length msgs \<and> msgs ! i = m \<and>
               (\<forall>j. initialCount \<le> j \<and> j < i \<longrightarrow> speaker (msgs ! j) \<noteq> ''response''))) \<and>
         (maxWaitTime \<le> now - startTime \<longrightarrow>
            waitForResponse w u initialCount startTime (pre @ (now, db) # rest) = Some timeout_reply) \<and>
         ((\<exists>(t, db) \<in> set polls. maxWaitTime \<le> t - startTime) \<longrightarrow>
            (\<exists>reply. waitForResponse w u initialCount startTime polls = Some reply)) \<and>
         (conversations d = tbl0 @ added \<and> sorted_wrt (<) (persisted_orders w (conversations d)) \<longrightarrow>
            new_reply (count_messages tbl0 w u) (Returns d) w u
            = find (\<lambda>r. workflow_id r = w \<and> user_id r = u \<and> speaker r = ''response'') added)"
proof (intro conjI impI)
  have skip: "waitForResponse w u initialCount startTime (pre @ (now, db) # rest)
      = waitForResponse w u initialCount startTime ((now, db) # rest)"
    using assms by (rule waitForResponse_skip_all)
  {
    assume a: "now - startTime < maxWaitTime \<and> new_reply initialCount db w u = Some m"
    then have "waitForResponse w u initialCount startTime ((now, db) # rest) = Some (message m)"
      by (intro waitForResponse_found) simp_all
    with skip show "waitForResponse w u initialCount startTime (pre @ (now, db) # rest) = Some (message m)"
      by simp
    from a have nr: "new_reply initialCount db w u = Some m" by simp
    from new_reply_Some [OF nr] show "speaker m = ''response''" by (rule conjunct1)
    from new_reply_Some [OF nr] show "workflow_id m = w" by simp
    from new_reply_Some [OF nr] show "user_id m = u" by simp
    from new_reply_Some [OF nr] show "\<exists>d msgs i. db = Returns d \<and>
               mset msgs = mset (filter (\<lambda>r. workflow_id r = w \<and> user_id r = u) (conversations d)) \<and>
               sorted (map message_order msgs) \<and>
               initialCount \<le> i \<and> i < length msgs \<and> msgs ! i = m \<and>
               (\<forall>j. initialCount \<le> j \<and> j < i \<longrightarrow> speaker (msgs ! j) \<noteq> ''response'')"
      by (elim conjE)
  }
  {
    assume "maxWaitTime \<le> now - startTime"
    then have "waitForResponse w u initialCount startTime ((now, db) # rest) = Some timeout_reply"
      by (rule waitForResponse_timeout)
    with skip show "waitForResponse w u initialCount startTime (pre @ (now, db) # rest) = Some timeout_reply"
      by simp
  }
  {
    assume "\<exists>(t, db) \<in> set polls. maxWaitTime \<le> t - startTime"
    then show "\<exists>reply. waitForResponse w u initialCount startTime polls = Some reply"
      by (rule waitForResponse_returns)
  }
  {
    assume "conversations d = tbl0 @ added \<and> sorted_wrt (<) (persisted_orders w (conversations d))"
    then have "conversations d = tbl0 @ added"
      and "sorted_wrt (<) (persisted_orders w (conversations d))"
      by (rule conjunct1, rule conjunct2)
    then show "new_reply (count_messages tbl0 w u) (Returns d) w u
            = find (\<lambda>r. workflow_id r = w \<and> user_id r = u \<and> speaker r = ''response'') added"
      by (rule new_reply_after_baseline)
  }
qed

lemma example_new_reply:
  "new_reply 2 Throws ''s1'' 7 = None"
  "new_reply 2 (Returns (example_db 3)) ''s1'' 7 = None"
  "new_reply 2 (Returns (example_db 4)) ''s1'' 7 = Some (example_table ! 3)"
  by (simp_all add: new_reply_def example_select) (simp_all add: example_table_rows)

text \<open>
  Baseline 2, start at 1000: a failed poll, a poll that finds only the user's new turn,
  then a poll that finds the reply; the same with the third observation after the
  timeout; and, with the baseline counted on the first two turns, the poll of the four
  turns finds the fourth, persisted after the baseline.
\<close>

theorem waitForResponse_reply_or_timeout_witness:
  "waitForResponse ''s1'' 7 2 1000
     ([(1000, Throws), (2000, Returns (example_db 3))] @ (3000, Returns (example_db 4)) # [])
     = Some ''fresh reply'' \<and>
   waitForResponse ''s1'' 7 2 1000
     ([(1000, Throws), (2000, Returns (example_db 3))] @ (76000, Returns (example_db 4)) # [])
     = Some timeout_reply \<and>
   (\<exists>reply. waitForResponse ''s1'' 7 2 1000 [(1000, Throws), (76000, Throws)] = Some reply) \<and>
   new_reply (count_messages (take 2 example_table) ''s1'' 7) (Returns (example_db 4)) ''s1'' 7
     = Some (example_table ! 3)"
proof -
  let ?pre = "[(1000, Throws), (2000, Returns (example_db 3))]"
  have pre: "\<forall>(t, db) \<in> set ?pre. t - 1000 < maxWaitTime \<and> new_reply 2 db ''s1'' 7 = None"
    by (simp add: example_new_reply maxWaitTime_def)
  have found: "3000 - 1000 < maxWaitTime \<and>
      new_reply 2 (Returns (example_db 4)) ''s1'' 7 = Some (example_table ! 3)"
    by (simp add: example_new_reply maxWaitTime_def)
  have late: "maxWaitTime \<le> 76000 - 1000"
    by (simp add: maxWaitTime_def)
  have some_late: "\<exists>(t, db) \<in> set [(1000, Throws :: database outcome), (76000, Throws)].
      maxWaitTime \<le> t - 1000"
    by (simp add: maxWaitTime_def)
  have msg: "message (example_table ! 3) = ''fresh reply''"
    by (simp add: example_table_rows)
  have ext: "conversations (example_db 4) = take 2 example_table @ drop 2 example_table \<and>
      sorted_wrt (<) (persisted_orders ''s1'' (conversations (example_db 4)))"
    by (simp add: example_db_def persisted_orders_def example_table_rows)
  have first_new: "find (\<lambda>r. workflow_id r = ''s1'' \<and> user_id r = 7 \<and> speaker r = ''response'')
      (drop 2 example_table) = Some (example_table ! 3)"
    by (simp add: example_table_rows)
  from waitForResponse_reply_or_timeout
    [OF pre, where now = 3000 and db = "Returns (example_db 4)" and m = "example_table ! 3"
       and rest = "[]"] found msg
  have a: "waitForResponse ''s1'' 7 2 1000 (?pre @ (3000, Returns (example_db 4)) # [])
     = Some ''fresh reply''"
    by simp
  from waitForResponse_reply_or_timeout
    [OF pre, where now = 76000 and db = "Returns (example_db 4)" and rest = "[]"] late
  have b: "waitForResponse ''s1'' 7 2 1000 (?pre @ (76000, Returns (example_db 4)) # [])
     = Some timeout_reply"
    by simp
  from waitForResponse_reply_or_timeout
    [OF pre, where polls = "[(1000, Throws), (76000, Throws)]"] some_late
  have c: "\<exists>reply. waitForResponse ''s1'' 7 2 1000 [(1000, Throws), (76000, Throws)] = Some reply"
    by blast
  from waitForResponse_reply_or_timeout
    [OF pre, where d = "example_db 4" and ?tbl0.0 = "take 2 example_table"
       and added = "drop 2 example_table"] ext
  have "new_reply (count_messages (take 2 example_table) ''s1'' 7) (Returns (example_db 4)) ''s1'' 7
     = find (\<lambda>r. workflow_id r = ''s1'' \<and> user_id r = 7 \<and> speaker r = ''response'')
         (drop 2 example_table)"
    by blast
  with first_new
  have d: "new_reply (count_messages (take 2 example_table) ''s1'' 7) (Returns (example_db 4)) ''s1'' 7
     = Some (example_table ! 3)"
    by (simp only:)
  from a b c d show ?thesis by (intro conjI)
qed

text \<open>
  Claim C8. For an authenticated request with a non-empty message and sessionId, the
  send route answers 200 with the fixed acknowledgement \<open>enqueued_reply\<close> when the
  script exits with code 0: the text does not depend on what the script printed nor on
  the conversation store, which the route never reads. On any other end of the script
  it answers 500. Either way the one call it makes is the start of the script.
\<close>

theorem send_POST_acknowledges_or_fails:
  assumes "authenticate lib token = Inr usr" and "msg \<noteq> []" and "sessionId \<noteq> []"
  shows "(ended run = Close (Some 0) \<longrightarrow>
            send_POST lib token (Returns \<lparr>req_message = Some msg, req_sessionId = Some sessionId\<rparr>) run
            = (\<lparr>status = 200, body = ResponseBody enqueued_reply\<rparr>,
               [CallPythonChatbot [sessionId @ ''-user-'' @ string_of_nat (u_id usr), msg]])) \<and>
         (ended run \<noteq> Close (Some 0) \<longrightarrow>
            send_POST lib token (Returns \<lparr>req_message = Some msg, req_sessionId = Some sessionId\<rparr>) run
            = (internal_server_error,
               [CallPythonChatbot [sessionId @ ''-user-'' @ string_of_nat (u_id usr), msg]]))"
  using assms
  by (auto simp: send_POST_def falsy_def send_callPythonChatbot_def Let_def
      split: process_end.splits)

lemma string_of_nat_7: "string_of_nat 7 = ''7''"
  by (simp add: string_of_nat.simps digit_char_def)

text \<open>
  User 7 submits \<open>and now?\<close> in session \<open>s1\<close>: acknowledged when the script exits
  with 0, failed when it exits with 1.
\<close>

theorem send_POST_acknowledges_or_fails_witness:
  "send_POST example_lib (Some ''good'')
     (Returns \<lparr>req_message = Some ''and now?'', req_sessionId = Some ''s1''\<rparr>) example_run
   = (\<lparr>status = 200, body = ResponseBody enqueued_reply\<rparr>, [CallPythonChatbot [''s1-user-7'', ''and now?'']]) \<and>
   send_POST example_lib (Some ''good'')
     (Returns \<lparr>req_message = Some ''and now?'', req_sessionId = Some ''s1''\<rparr>)
     (example_run\<lparr>ended := Close (Some 1)\<rparr>)
   = (internal_server_error, [CallPythonChatbot [''s1-user-7'', ''and now?'']])"
proof -
  have auth: "authenticate example_lib (Some ''good'') = Inr example_user"
    by (rule authenticate_example_good)
  have id7: "string_of_nat (u_id example_user) = ''7''"
    by (simp add: example_user_def string_of_nat_7)
  from send_POST_acknowledges_or_fails [OF auth, of "''and now?''" "''s1''" example_run] id7
  have a: "send_POST example_lib (Some ''good'')
     (Returns \<lparr>req_message = Some ''and now?'', req_sessionId = Some ''s1''\<rparr>) example_run
   = (\<lparr>status = 200, body = ResponseBody enqueued_reply\<rparr>, [CallPythonChatbot [''s1-user-7'', ''and now?'']])"
    by (simp add: example_run_def)
  from send_POST_acknowledges_or_fails
    [OF auth, of "''and now?''" "''s1''" "example_run\<lparr>ended := Close (Some 1)\<rparr>"] id7
  have b: "send_POST example_lib (Some ''good'')
     (Returns \<lparr>req_message = Some ''and now?'', req_sessionId = Some ''s1''\<rparr>)
     (example_run\<lparr>ended := Close (Some 1)\<rparr>)
   = (internal_server_error, [CallPythonChatbot [''s1-user-7'', ''and now?'']])"
    by (simp add: example_run_def)
  from a b show ?thesis by (rule conjI)
qed

lemma authenticate_rejects:
  assumes "token = None \<or> token = Some [] \<or>
           (\<exists>t. token = Some t \<and> verifyToken lib t = Returns None) \<or>
           (\<exists>t userId. token = Some t \<and> verifyToken lib t = Returns (Some userId) \<and>
                        getUserById lib userId = Returns None)"
  shows "\<exists>early. authenticate lib token = Inl early \<and> (status early = 401 \<or> status early = 404)"
  using assms by (auto simp: authenticate_def)

text \<open>
  Claim C9. When the token cookie is absent or empty, fails verification, or decodes to
  a user that does not exist, each of the three routes answers 401 or 404 and makes no
  call: the chatbot script is not started and the conversation store is neither counted,
  read nor polled.
\<close>

theorem unauthenticated_request_makes_no_call:
  assumes "token = None \<or> token = Some [] \<or>
           (\<exists>t. token = Some t \<and> verifyToken lib t = Returns None) \<or>
           (\<exists>t userId. token = Some t \<and> verifyToken lib t = Returns (Some userId) \<and>
                        getUserById lib userId = Returns None)"
  shows "\<exists>early. (status early = 401 \<or> status early = 404) \<and>
           send_POST lib token json run = (early, []) \<and>
           send_and_wait_POST lib token json countDb run startTime polls = Some (early, []) \<and>
           history_GET lib token workflowId db1 db2 = (early, [])"
proof -
  from assms obtain early where a: "authenticate lib token = Inl early"
    and st: "status early = 401 \<or> status early = 404"
    using authenticate_rejects by blast
  from a have "send_POST lib token json run = (early, [])"
    by (simp add: send_POST_def)
  moreover from a have "send_and_wait_POST lib token json countDb run startTime polls = Some (early, [])"
    by (simp add: send_and_wait_POST_def)
  moreover from a have "history_GET lib token workflowId db1 db2 = (early, [])"
    by (simp add: history_GET_def)
  ultimately show ?thesis using st by blast
qed

text \<open>
  No cookie on the three routes; a forged token on the send route (401); a token of a
  deleted user on the history route (404).
\<close>

theorem unauthenticated_request_makes_no_call_witness:
  "(\<exists>early. (status early = 401 \<or> status early = 404) \<and>
      send_POST example_lib None (Returns \<lparr>req_message = Some ''hi'', req_sessionId = Some ''s1''\<rparr>) example_run
        = (early, []) \<and>
      send_and_wait_POST example_lib None
        (Returns \<lparr>req_message = Some ''hi'', req_sessionId = Some ''s1''\<rparr>)
        (Returns (example_db 2)) example_run 1000 [(1000, Returns (example_db 4))] = Some (early, []) \<and>
      history_GET example_lib None (Some ''s1'') (Returns (example_db 4)) (Returns (example_db 4))
        = (early, [])) \<and>
   (\<exists>early. status early = 401 \<and>
      send_POST example_lib (Some ''forged'')
        (Returns \<lparr>req_message = Some ''hi'', req_sessionId = Some ''s1''\<rparr>) example_run = (early, [])) \<and>
   (\<exists>early. status early = 404 \<and>
      history_GET example_lib (Some ''stale'') (Some ''s1'') (Returns (example_db 4))
        (Returns (example_db 4)) = (early, []))"
proof (intro conjI)
  show "\<exists>early. (status early = 401 \<or> status early = 404) \<and>
      send_POST example_lib None (Returns \<lparr>req_message = Some ''hi'', req_sessionId = Some ''s1''\<rparr>) example_run
        = (early, []) \<and>
      send_and_wait_POST example_lib None
        (Returns \<lparr>req_message = Some ''hi'', req_sessionId = Some ''s1''\<rparr>)
        (Returns (example_db 2)) example_run 1000 [(1000, Returns (example_db 4))] = Some (early, []) \<and>
      history_GET example_lib None (Some ''s1'') (Returns (example_db 4)) (Returns (example_db 4))
        = (early, [])"
    by (rule unauthenticated_request_makes_no_call) simp
next
  have "Some ''forged'' = None \<or> Some ''forged'' = Some [] \<or>
           (\<exists>t. Some ''forged'' = Some t \<and> verifyToken example_lib t = Returns None) \<or>
           (\<exists>t userId. Some ''forged'' = Some t \<and> verifyToken example_lib t = Returns (Some userId) \<and>
                        getUserById example_lib userId = Returns None)"
    by (simp add: example_lib_def)
  from unauthenticated_request_makes_no_call [OF this]
  obtain early where st: "status early = 401 \<or> status early = 404"
    and s: "send_POST example_lib (Some ''forged'')
        (Returns \<lparr>req_message = Some ''hi'', req_sessionId = Some ''s1''\<rparr>) example_run = (early, [])"
    by blast
  have "authenticate example_lib (Some ''forged'') = Inl \<lparr>status = 401, body = ErrorBody ''Invalid token''\<rparr>"
    by (simp add: authenticate_def example_lib_def)
  with s have "status early = 401"
    by (auto simp: send_POST_def)
  with s show "\<exists>early. status early = 401 \<and>
      send_POST example_lib (Some ''forged'')
        (Returns \<lparr>req_message = Some ''hi'', req_sessionId = Some ''s1''\<rparr>) example_run = (early, [])"
    by blast
next
  have "Some ''stale'' = None \<or> Some ''stale'' = Some [] \<or>
           (\<exists>t. Some ''stale'' = Some t \<and> verifyToken example_lib t = Returns None) \<or>
           (\<exists>t userId. Some ''stale'' = Some t \<and> verifyToken example_lib t = Returns (Some userId) \<and>
                        getUserById example_lib userId = Returns None)"
    by (simp add: example_lib_def)
  from unauthenticated_request_makes_no_call [OF this]
  obtain early where st: "status early = 401 \<or> status early = 404"
    and s: "history_GET example_lib (Some ''stale'') (Some ''s1'') (Returns (example_db 4))
        (Returns (example_db 4)) = (early, [])"
    by blast
  have "authenticate example_lib (Some ''stale'') = Inl \<lparr>status = 404, body = ErrorBody ''User not found''\<rparr>"
    by (simp add: authenticate_def example_lib_def)
  with s have "status early = 404"
    by (auto simp: history_GET_def)
  with s show "\<exists>early. status early = 404 \<and>
      history_GET example_lib (Some ''stale'') (Some ''s1'') (Returns (example_db 4))
        (Returns (example_db 4)) = (early, [])"
    by blast
qed


text \<open>
  Claim C4, as amended. For an authenticated request, a failure of a query against the
  store is not surfaced: the history route answers 200 with a \<^verbatim>\<open>null\<close> conversation
  when either query of \<open>getConversation\<close> fails and 200 with an empty list when the
  query of \<open>getAllConversations\<close> fails; \<open>getMessageCount\<close> answers 0; and a failed
  poll of \<open>waitForResponse\<close> is skipped.
\<close>

theorem failed_query_answers_default:
  assumes "authenticate lib token = Inr usr"
  shows "(w \<noteq> [] \<longrightarrow>
            history_GET lib token (Some w) Throws db2
              = (\<lparr>status = 200, body = ConversationBody None\<rparr>, [GetConversation (u_id usr) w]) \<and>
            history_GET lib token (Some w) db1 Throws
              = (\<lparr>status = 200, body = ConversationBody None\<rparr>, [GetConversation (u_id usr) w])) \<and>
         history_GET lib token None Throws db2
           = (\<lparr>status = 200, body = ConversationsBody []\<rparr>, [GetAllConversations (u_id usr)]) \<and>
         getMessageCount Throws w u = 0 \<and>
         (now - startTime < maxWaitTime \<longrightarrow>
            waitForResponse w u n startTime ((now, Throws) # polls)
              = waitForResponse w u n startTime polls)"
  using assms
  by (auto simp: history_GET_def getConversation_def getAllConversations_def getMessageCount_def
      split: outcome.splits)

text \<open>
  The summary query of the history route fails: 200 with \<^verbatim>\<open>null\<close>. Every poll fails
  until the timeout: the fixed timeout text.
\<close>

theorem failed_query_answers_default_witness:
  "history_GET example_lib (Some ''good'') (Some ''s1'') (Returns (example_db 4)) Throws
     = (\<lparr>status = 200, body = ConversationBody None\<rparr>, [GetConversation 7 ''s1'']) \<and>
   waitForResponse ''s1'' 7 2 1000 [(1000, Throws), (76000, Throws)] = Some timeout_reply"
proof -
  have auth: "authenticate example_lib (Some ''good'') = Inr example_user"
    by (rule authenticate_example_good)
  note inst = failed_query_answers_default
    [OF auth, where w = "''s1''" and ?db1.0 = "Returns (example_db 4)" and u = 7 and n = 2
       and now = 1000 and startTime = 1000 and polls = "[(76000, Throws)]"]
  from inst have a: "history_GET example_lib (Some ''good'') (Some ''s1'') (Returns (example_db 4)) Throws
     = (\<lparr>status = 200, body = ConversationBody None\<rparr>, [GetConversation 7 ''s1''])"
    by (simp add: example_user_def)
  from inst have "waitForResponse ''s1'' 7 2 1000 [(1000, Throws), (76000, Throws)]
      = waitForResponse ''s1'' 7 2 1000 [(76000, Throws)]"
    by (simp add: maxWaitTime_def)
  then have b: "waitForResponse ''s1'' 7 2 1000 [(1000, Throws), (76000, Throws)] = Some timeout_reply"
    by (simp add: maxWaitTime_def)
  from a b show ?thesis by (rule conjI)
qed

text \<open>
  Claim C4 as stated fails: with the database failing, the history route answers 200
  with an empty list of conversations, and 200 with a \<^verbatim>\<open>null\<close> conversation.
\<close>

theorem failed_query_counterexample:
  "history_GET example_lib (Some ''good'') None Throws Throws
     = (\<lparr>status = 200, body = ConversationsBody []\<rparr>, [GetAllConversations 7]) \<and>
   history_GET example_lib (Some ''good'') (Some ''s1'') Throws Throws
     = (\<lparr>status = 200, body = ConversationBody None\<rparr>, [GetConversation 7 ''s1''])"
  by (simp add: history_GET_def authenticate_def example_lib_def example_user_def
      getConversation_def getAllConversations_def)

lemma new_reply_at_own_count:
  "new_reply (getMessageCount (Returns d) w u) (Returns d) w u = None"
proof -
  have "length (select_messages (conversations d) w u) = count_messages (conversations d) w u"
    by (simp add: select_messages_def count_messages_def)
  then show ?thesis
    by (simp add: new_reply_def getMessageCount_def)
qed

text \<open>
  Claim C10. When the count query fails, \<open>getMessageCount\<close> returns 0. Then, for an
  authenticated request whose script run succeeds, a first poll that still finds the
  database \<open>d\<close> of before the submission makes the route answer with the first
  reply of the assistant that \<open>d\<close> already holds. With the count of \<open>d\<close> as the
  baseline, nothing in \<open>d\<close> is a new reply.
\<close>

theorem failed_count_returns_old_reply:
  assumes "authenticate lib token = Inr usr" and "msg \<noteq> []" and "sessionId \<noteq> []"
    and "ended run = Close (Some 0)" and "now - startTime < maxWaitTime"
    and "find (\<lambda>m. speaker m = ''response'') (select_messages (conversations d) sessionId (u_id usr))
           = Some old"
  shows "getMessageCount Throws sessionId (u_id usr) = 0 \<and>
         send_and_wait_POST lib token
           (Returns \<lparr>req_message = Some msg, req_sessionId = Some sessionId\<rparr>)
           Throws run startTime ((now, Returns d) # polls)
         = Some (\<lparr>status = 200, body = ResponseBody (message old)\<rparr>,
                 [GetMessageCount sessionId (u_id usr),
                  CallPythonChatbot [sessionId, msg, string_of_nat (u_id usr)],
                  WaitForResponse sessionId (u_id usr) 0]) \<and>
         new_reply (getMessageCount (Returns d) sessionId (u_id usr)) (Returns d) sessionId (u_id usr)
           = None"
proof (intro conjI)
  show c0: "getMessageCount Throws sessionId (u_id usr) = 0"
    by (simp add: getMessageCount_def)
  from assms(6) have "new_reply 0 (Returns d) sessionId (u_id usr) = Some old"
    by (simp add: new_reply_def)
  with assms(5)
  have "waitForResponse sessionId (u_id usr) 0 startTime ((now, Returns d) # polls)
          = Some (message old)"
    by (rule waitForResponse_found)
  with assms(1-4) c0 show "send_and_wait_POST lib token
           (Returns \<lparr>req_message = Some msg, req_sessionId = Some sessionId\<rparr>)
           Throws run startTime ((now, Returns d) # polls)
         = Some (\<lparr>status = 200, body = ResponseBody (message old)\<rparr>,
                 [GetMessageCount sessionId (u_id usr),
                  CallPythonChatbot [sessionId, msg, string_of_nat (u_id usr)],
                  WaitForResponse sessionId (u_id usr) 0])"
    by (simp add: send_and_wait_POST_def falsy_def send_and_wait_callPythonChatbot_def Let_def
        del: waitForResponse.simps)
  show "new_reply (getMessageCount (Returns d) sessionId (u_id usr)) (Returns d) sessionId (u_id usr)
           = None"
    by (rule new_reply_at_own_count)
qed

text \<open>
  The first exchange of \<open>s1\<close> is persisted; user 7 submits \<open>and now?\<close>, the count
  query fails, and the first poll returns the old reply.
\<close>

theorem failed_count_returns_old_reply_witness:
  "send_and_wait_POST example_lib (Some ''good'')
     (Returns \<lparr>req_message = Some ''and now?'', req_sessionId = Some ''s1''\<rparr>)
     Throws example_run 1000 [(1500, Returns (example_db 2))]
   = Some (\<lparr>status = 200, body = ResponseBody ''old reply''\<rparr>,
           [GetMessageCount ''s1'' 7, CallPythonChatbot [''s1'', ''and now?'', ''7''],
            WaitForResponse ''s1'' 7 0])"
proof -
  have auth: "authenticate example_lib (Some ''good'') = Inr example_user"
    by (rule authenticate_example_good)
  have run: "ended example_run = Close (Some 0)"
    by (simp add: example_run_def)
  have time: "1500 - 1000 < maxWaitTime"
    by (simp add: maxWaitTime_def)
  have old: "find (\<lambda>m. speaker m = ''response'')
      (select_messages (conversations (example_db 2)) ''s1'' (u_id example_user))
      = Some (example_table ! 1)"
    by (simp add: example_user_def example_select) (simp add: example_table_rows)
  have msg: "message (example_table ! 1) = ''old reply''"
    by (simp add: example_table_rows)
  have id7: "string_of_nat (u_id example_user) = ''7''" and u7: "u_id example_user = 7"
    by (simp_all add: example_user_def string_of_nat_7)
  from failed_count_returns_old_reply [OF auth _ _ run time old, of "''and now?''" "[]"] msg id7 u7
  show ?thesis by simp
qed

end
